theory Spec2Isabelle
  imports Complex_Main "HOL-Library.AList"
begin

section \<open>Exceptions and the outcome of a call\<close>

text \<open>
  A member function changes its object and then returns, throws, or runs into undefined
  behaviour. A call is therefore a function from the object to an outcome and the object
  as the call leaves it. \<open>Fault\<close> stands for undefined behaviour of C++ (an integer
  remainder with divisor zero, a call through a null pointer, a read through an iterator
  that no longer points into the container).
\<close>

text \<open>
  Modelled from the spec: the header defining the macros \<open>EXC_PRINT(msg)\<close> and
  \<open>EXC_PRINT_2(msg, name)\<close>, through which every failure of the sources is raised, is not
  among the sources. The spec says that such a call fails, so each macro is taken to throw
  an \<open>Exc\<close> carrying its message and, for \<open>EXC_PRINT_2\<close>, its second argument (the task
  name). \<open>EXC_PRINT\<close> leaves the second component empty.
\<close>

datatype Exc = Exc string string

datatype 'a outcome = Return 'a | Throw Exc | Fault

section \<open>The deadline-probability map\<close>

text \<open>
  \<open>unsigned int\<close> values are natural numbers here: the code applies only \<open>%\<close> and
  comparisons to them, which cannot wrap around. A probability in the map is kept as the
  real number it denotes: the task only stores it and hands it back, and computes nothing
  with it.
\<close>

text \<open>
  Modelled from the spec: the type \<open>DeadlineProbabilityMap\<close> is declared in a header that
  is not among the sources. The spec describes an ordered associative structure with
  unique keys, and the code uses \<open>insert\<close> (whose result is false when the key is taken),
  \<open>find\<close> and \<open>empty\<close>. It is kept as an association list in key order.
\<close>

type_synonym DeadLineUnit = nat

type_synonym DeadlineProbabilityMap = "(DeadLineUnit \<times> real) list"

definition dpm_find :: "DeadlineProbabilityMap \<Rightarrow> DeadLineUnit \<Rightarrow> real option" where
  "dpm_find m d = map_of m d"

definition dpm_insert ::
  "DeadLineUnit \<times> real \<Rightarrow> DeadlineProbabilityMap \<Rightarrow> bool \<times> DeadlineProbabilityMap" where
  "dpm_insert entry m =
     (if dpm_find m (fst entry) = None then (True, insort_key fst entry m) else (False, m))"

definition dpm_empty :: "DeadlineProbabilityMap \<Rightarrow> bool" where
  "dpm_empty m = (m = [])"

section \<open>The probability solver\<close>

text \<open>
  Modelled from the spec: the solver class is not among the sources. The task calls
  \<open>solve(probabilistic_deadlines, deadline_step)\<close>, which works on the map in place and
  either returns or fails, and \<open>register_task(this)\<close>. The behaviour of \<open>solve\<close> is a
  parameter of the solver object (field \<open>solve\<close>): any function from the map and the step
  to an outcome and the map as the solver leaves it. Failure is an exception, as
  everywhere in these sources; the call site discards whatever \<open>solve\<close> returns. The solver
  object also remembers every call of \<open>solve\<close> it has received (field \<open>solve_calls\<close>, the
  arguments in order) and the names of the tasks registered with it, so that the number of
  solver runs can be observed.
\<close>

record Solver =
  solve :: "DeadlineProbabilityMap \<Rightarrow> nat \<Rightarrow> unit outcome \<times> DeadlineProbabilityMap"
  solve_calls :: "(DeadlineProbabilityMap \<times> nat) list"
  registered_tasks :: "string list"

definition Solver_solve ::
  "Solver \<Rightarrow> DeadlineProbabilityMap \<Rightarrow> nat \<Rightarrow> (unit outcome \<times> DeadlineProbabilityMap) \<times> Solver" where
  "Solver_solve s m step = (solve s m step, s\<lparr>solve_calls := solve_calls s @ [(m, step)]\<rparr>)"

definition Solver_register_task :: "Solver \<Rightarrow> string \<Rightarrow> Solver" where
  "Solver_register_task s nm = s\<lparr>registered_tasks := registered_tasks s @ [nm]\<rparr>"

section \<open>GenericTaskDescriptor\<close>

text \<open>
  Modelled from the spec: the class \<open>pmf\<close> is declared in a header that is not among the
  sources; a distribution is kept as a table from values to probabilities, and
  \<open>set(v, p)\<close> stores \<open>p\<close> at \<open>v\<close>.
\<close>

type_synonym pmf = "(nat \<times> real) list"

definition pmf_set :: "pmf \<Rightarrow> nat \<Rightarrow> real \<Rightarrow> pmf" where
  "pmf_set f v p = AList.update v p f"

text \<open>
  The members are those of the class in \<open>task_descriptor.hpp\<close>, together with \<open>solved\<close>
  and \<open>probability_solver\<close>, which the member functions of the implementation file use.
  The solver pointer is \<open>None\<close> when null; the solver object it points to is kept inside
  the task, since no claim depends on a solver shared between tasks.
\<close>

record GenericTaskDescriptor =
  name :: string
  C :: pmf
  Z :: pmf
  verbose :: bool
  periodic :: bool
  P :: nat
  deadline_step :: nat
  probabilistic_deadlines :: DeadlineProbabilityMap
  probability_solver :: "Solver option"
  solved :: bool
  qos :: real

text \<open>
  The two constructors, with the initialiser lists of the header. The header's lists do
  not mention \<open>solved\<close> and \<open>probability_solver\<close>; their initial values are those of the
  spec's data model: \<open>solved\<close> is false on construction and the solver is unset.
\<close>

definition GenericTaskDescriptor_aperiodic :: "string \<Rightarrow> pmf \<Rightarrow> pmf \<Rightarrow> GenericTaskDescriptor" where
  "GenericTaskDescriptor_aperiodic nm Cd Zd =
     \<lparr>name = nm, C = Cd, Z = Zd, verbose = False, periodic = False, P = 0,
      deadline_step = 0, probabilistic_deadlines = [], probability_solver = None,
      solved = False, qos = 0\<rparr>"

definition GenericTaskDescriptor_periodic :: "string \<Rightarrow> pmf \<Rightarrow> nat \<Rightarrow> GenericTaskDescriptor" where
  "GenericTaskDescriptor_periodic nm Cd Pd =
     \<lparr>name = nm, C = Cd, Z = pmf_set [] Pd 1, verbose = False, periodic = True, P = Pd,
      deadline_step = 0, probabilistic_deadlines = [], probability_solver = None,
      solved = False, qos = 0\<rparr>"

definition set_verbose ::
  "'a GenericTaskDescriptor_scheme \<Rightarrow> bool \<Rightarrow> bool outcome \<times> 'a GenericTaskDescriptor_scheme" where
  "set_verbose t verbosed = (Return (verbose t), t\<lparr>verbose := verbosed\<rparr>)"

definition is_periodic ::
  "'a GenericTaskDescriptor_scheme \<Rightarrow> bool outcome \<times> 'a GenericTaskDescriptor_scheme" where
  "is_periodic t = (Return (periodic t), t)"

text \<open>
  \<open>get_period\<close> returns the \<open>unsigned int\<close> period as an \<open>int\<close>: a period of \<open>2 ^ 31\<close> or more
  comes out negative.
\<close>

definition int_of_unsigned :: "nat \<Rightarrow> int" where
  "int_of_unsigned n =
     (let v = int (n mod 2 ^ 32) in if v < 2 ^ 31 then v else v - 2 ^ 32)"

definition get_period ::
  "'a GenericTaskDescriptor_scheme \<Rightarrow> int outcome \<times> 'a GenericTaskDescriptor_scheme" where
  "get_period t =
     (if \<not> periodic t then (Throw (Exc ''Period wrongly required for aperiodic task '' (name t)), t)
      else (Return (int_of_unsigned (P t)), t))"

definition get_computation_time ::
  "'a GenericTaskDescriptor_scheme \<Rightarrow> pmf outcome \<times> 'a GenericTaskDescriptor_scheme" where
  "get_computation_time t = (Return (C t), t)"

definition get_interarrival_time ::
  "'a GenericTaskDescriptor_scheme \<Rightarrow> pmf outcome \<times> 'a GenericTaskDescriptor_scheme" where
  "get_interarrival_time t =
     (if periodic t then (Throw (Exc ''Interarrival time wrongly required for periodic task '' (name t)), t)
      else (Return (Z t), t))"

text \<open>
  \<open>insert_deadline\<close>: the remainder \<open>deadline % deadline_step\<close> is undefined for a zero
  divisor, which is the first branch. The rest follows the statements of the source.
\<close>

definition insert_deadline ::
  "'a GenericTaskDescriptor_scheme \<Rightarrow> DeadLineUnit \<Rightarrow> unit outcome \<times> 'a GenericTaskDescriptor_scheme" where
  "insert_deadline t deadline =
     (if deadline_step t = 0 then (Fault, t)
      else if deadline mod deadline_step t \<noteq> 0
        then (Throw (Exc ''Wrong deadline values set for task '' (name t)), t)
      else (case dpm_insert (deadline, 0) (probabilistic_deadlines t) of
              (inserted, m') \<Rightarrow>
                if \<not> inserted
                then (Throw (Exc ''cannot create deadline for task '' (name t)),
                      t\<lparr>probabilistic_deadlines := m'\<rparr>)
                else (Return (), t\<lparr>probabilistic_deadlines := m'\<rparr>)))"

text \<open>
  \<open>compute_probability\<close>: three guards, then the call of the solver on the map and the
  step. The map is passed by reference, so the task holds whatever the solver left in it,
  also when the solver throws. No statement assigns \<open>solved\<close>.
\<close>

definition compute_probability ::
  "'a GenericTaskDescriptor_scheme \<Rightarrow> unit outcome \<times> 'a GenericTaskDescriptor_scheme" where
  "compute_probability t =
     (case probability_solver t of
        None \<Rightarrow> (Throw (Exc ''Probability solver unset for task '' (name t)), t)
      | Some s \<Rightarrow>
          if dpm_empty (probabilistic_deadlines t)
          then (Throw (Exc ''No deadline specified for task '' (name t)), t)
          else if solved t then (Return (), t)
          else (case Solver_solve s (probabilistic_deadlines t) (deadline_step t) of
                  ((r, m'), s') \<Rightarrow>
                    (r, t\<lparr>probabilistic_deadlines := m', probability_solver := Some s'\<rparr>)))"

text \<open>
  \<open>get_probability\<close>: the iterator \<open>it\<close> is taken before \<open>compute_probability\<close> runs and
  compared with \<open>end()\<close> after it. The value read through \<open>it\<close> is the one the map holds
  after the solver has run; if the solver removed the entry the read is undefined.
\<close>

definition get_probability ::
  "'a GenericTaskDescriptor_scheme \<Rightarrow> DeadLineUnit \<Rightarrow> real outcome \<times> 'a GenericTaskDescriptor_scheme" where
  "get_probability t deadline =
     (let it = dpm_find (probabilistic_deadlines t) deadline;
          (r, t') = (if \<not> solved t then compute_probability t else (Return (), t))
      in case r of
           Throw e \<Rightarrow> (Throw e, t')
         | Fault \<Rightarrow> (Fault, t')
         | Return u \<Rightarrow>
             if it = None then (Throw (Exc ''Deadline does not exist for task '' (name t')), t')
             else (case dpm_find (probabilistic_deadlines t') deadline of
                     Some p \<Rightarrow> (Return p, t')
                   | None \<Rightarrow> (Fault, t')))"

text \<open>
  \<open>set_solver\<close>: the pointer and the flag are assigned before \<open>register_task\<close> is called
  through the pointer, which is undefined for a null pointer.
\<close>

definition set_solver ::
  "'a GenericTaskDescriptor_scheme \<Rightarrow> Solver option \<Rightarrow> unit outcome \<times> 'a GenericTaskDescriptor_scheme" where
  "set_solver t psd =
     (case psd of
        None \<Rightarrow> (Fault, t\<lparr>probability_solver := None, solved := False\<rparr>)
      | Some s \<Rightarrow>
          (Return (), t\<lparr>probability_solver := Some (Solver_register_task s (name t)),
                        solved := False\<rparr>))"

definition solver_runs :: "'a GenericTaskDescriptor_scheme \<Rightarrow> nat" where
  "solver_runs t = (case probability_solver t of None \<Rightarrow> 0 | Some s \<Rightarrow> length (solve_calls s))"

subsection \<open>Tasks reachable through the public interface\<close>

text \<open>
  The public member functions of \<open>GenericTaskDescriptor\<close> as a datatype of calls, and the
  effect of one call on the object. A task is reachable when a constructor of
  \<open>GenericTaskDescriptor\<close> has initialised its base part (a derived class's constructor
  runs one of the two), or when it results from a reachable task by a public call that
  does not run into undefined behaviour, or by a change of the members a derived class
  adds (which is all that the member functions of the two derived classes assign).
\<close>

datatype public_call =
    SetVerbose bool
  | IsPeriodic
  | GetPeriod
  | GetComputationTime
  | GetInterarrivalTime
  | InsertDeadline DeadLineUnit
  | ComputeProbability
  | GetProbability DeadLineUnit
  | SetSolver "Solver option"

fun faulted :: "'r outcome \<Rightarrow> bool" where
  "faulted Fault = True"
| "faulted (Return v) = False"
| "faulted (Throw e) = False"

fun invoke :: "public_call \<Rightarrow> 'a GenericTaskDescriptor_scheme \<Rightarrow> bool \<times> 'a GenericTaskDescriptor_scheme" where
  "invoke (SetVerbose b) t = (faulted (fst (set_verbose t b)), snd (set_verbose t b))"
| "invoke IsPeriodic t = (faulted (fst (is_periodic t)), snd (is_periodic t))"
| "invoke GetPeriod t = (faulted (fst (get_period t)), snd (get_period t))"
| "invoke GetComputationTime t =
     (faulted (fst (get_computation_time t)), snd (get_computation_time t))"
| "invoke GetInterarrivalTime t =
     (faulted (fst (get_interarrival_time t)), snd (get_interarrival_time t))"
| "invoke (InsertDeadline d) t = (faulted (fst (insert_deadline t d)), snd (insert_deadline t d))"
| "invoke ComputeProbability t =
     (faulted (fst (compute_probability t)), snd (compute_probability t))"
| "invoke (GetProbability d) t = (faulted (fst (get_probability t d)), snd (get_probability t d))"
| "invoke (SetSolver psd) t = (faulted (fst (set_solver t psd)), snd (set_solver t psd))"

inductive reachable :: "'a GenericTaskDescriptor_scheme \<Rightarrow> bool" where
  aperiodic:
    "GenericTaskDescriptor.truncate t = GenericTaskDescriptor_aperiodic nm Cd Zd \<Longrightarrow> reachable t"
| periodic:
    "GenericTaskDescriptor.truncate t = GenericTaskDescriptor_periodic nm Cd Pd \<Longrightarrow> reachable t"
| call:
    "reachable t \<Longrightarrow> invoke m t = (False, t') \<Longrightarrow> reachable t'"
| derived:
    "reachable t \<Longrightarrow> reachable (t\<lparr>GenericTaskDescriptor.more := x\<rparr>)"

section \<open>FixedPriorityTaskDescriptor\<close>

record FixedPriorityTaskDescriptor = GenericTaskDescriptor +
  priority :: nat

definition FixedPriorityTaskDescriptor_aperiodic ::
  "string \<Rightarrow> pmf \<Rightarrow> pmf \<Rightarrow> nat \<Rightarrow> FixedPriorityTaskDescriptor outcome" where
  "FixedPriorityTaskDescriptor_aperiodic nm Cd Zd priorityd =
     (if priorityd > 99 then Throw (Exc ''Priority out of range for task '' nm)
      else Return (GenericTaskDescriptor.extend (GenericTaskDescriptor_aperiodic nm Cd Zd)
                     (FixedPriorityTaskDescriptor.fields priorityd)))"

definition FixedPriorityTaskDescriptor_periodic ::
  "string \<Rightarrow> pmf \<Rightarrow> nat \<Rightarrow> nat \<Rightarrow> FixedPriorityTaskDescriptor outcome" where
  "FixedPriorityTaskDescriptor_periodic nm Cd Pd priorityd =
     (if priorityd > 99 then Throw (Exc ''Priority out of range for task '' nm)
      else Return (GenericTaskDescriptor.extend (GenericTaskDescriptor_periodic nm Cd Pd)
                     (FixedPriorityTaskDescriptor.fields priorityd)))"

definition get_priority ::
  "FixedPriorityTaskDescriptor \<Rightarrow> nat outcome \<times> FixedPriorityTaskDescriptor" where
  "get_priority t = (Return (priority t), t)"

definition set_priority ::
  "FixedPriorityTaskDescriptor \<Rightarrow> nat \<Rightarrow> nat outcome \<times> FixedPriorityTaskDescriptor" where
  "set_priority t priorityd = (Return (priority t), t\<lparr>priority := priorityd\<rparr>)"

section \<open>IEEE 754 binary64 values\<close>

text \<open>
  The type \<open>double\<close> of the sources, where the code computes with it. A finite value is
  kept as the real number it denotes, beside the two infinities and NaN. The two zeros are
  one value: no comparison tells them apart, and the only zero divisor in these sources
  is the conversion of the \<open>int\<close> zero, which is the positive zero. Every arithmetic
  operation rounds the exact result to the nearest representable value, ties to the even
  significand: 53 significant bits, exponents from \<open>-1022\<close> to \<open>1023\<close>, gradual underflow
  below and infinity above. Each operation is rounded on its own, in the order in which
  the source writes them. Every comparison with NaN is false.
\<close>

datatype double = Finite real | PlusInfinity | MinusInfinity | NaN

text \<open>The number of binary digits of a natural number.\<close>

fun bit_length :: "nat \<Rightarrow> nat" where
  "bit_length n = (if n = 0 then 0 else Suc (bit_length (n div 2)))"

declare bit_length.simps [simp del]

text \<open>For a positive \<open>x\<close>, the exponent \<open>e\<close> with \<open>2 ^ e \<le> x < 2 ^ (e + 1)\<close>.\<close>

definition exponent :: "real \<Rightarrow> int" where
  "exponent x =
     (if 1 \<le> x then int (bit_length (nat \<lfloor>x\<rfloor>)) - 1
      else - int (bit_length (nat (\<lceil>1 / x\<rceil> - 1))))"

definition round_half_even :: "real \<Rightarrow> int" where
  "round_half_even q =
     (let f = \<lfloor>q\<rfloor>; r = q - of_int f
      in if r < 1 / 2 then f else if 1 / 2 < r then f + 1 else if even f then f else f + 1)"

definition scale2 :: "real \<Rightarrow> int \<Rightarrow> real" where
  "scale2 x k = (if 0 \<le> k then x * 2 ^ nat k else x / 2 ^ nat (- k))"

text \<open>
  Rounding of a real number to binary64: the number is scaled so that one unit is the
  spacing of the representable values at its exponent, rounded to an integer and scaled
  back.
\<close>

definition binary64 :: "real \<Rightarrow> double" where
  "binary64 x =
     (if x = 0 then Finite 0
      else let e = max (exponent \<bar>x\<bar>) (- 1022);
               y = scale2 (of_int (round_half_even (scale2 x (52 - e)))) (e - 52)
           in if 2 ^ 1024 \<le> \<bar>y\<bar> then (if 0 < x then PlusInfinity else MinusInfinity)
              else Finite y)"

definition double_of_int :: "int \<Rightarrow> double" where
  "double_of_int i = binary64 (of_int i)"




fun double_div :: "double \<Rightarrow> double \<Rightarrow> double" where
  "double_div (Finite a) (Finite b) =
     (if b \<noteq> 0 then binary64 (a / b)
      else if 0 < a then PlusInfinity else if a < 0 then MinusInfinity else NaN)"
| "double_div NaN y = NaN"
| "double_div x NaN = NaN"
| "double_div (Finite a) PlusInfinity = Finite 0"
| "double_div (Finite a) MinusInfinity = Finite 0"
| "double_div PlusInfinity (Finite b) = (if 0 \<le> b then PlusInfinity else MinusInfinity)"
| "double_div MinusInfinity (Finite b) = (if 0 \<le> b then MinusInfinity else PlusInfinity)"
| "double_div x y = NaN"

fun double_lt :: "double \<Rightarrow> double \<Rightarrow> bool" where
  "double_lt (Finite a) (Finite b) = (a < b)"
| "double_lt MinusInfinity (Finite b) = True"
| "double_lt MinusInfinity PlusInfinity = True"
| "double_lt (Finite a) PlusInfinity = True"
| "double_lt x y = False"

fun double_le :: "double \<Rightarrow> double \<Rightarrow> bool" where
  "double_le (Finite a) (Finite b) = (a \<le> b)"
| "double_le NaN y = False"
| "double_le x NaN = False"
| "double_le MinusInfinity y = True"
| "double_le x PlusInfinity = True"
| "double_le x y = False"

fun double_gt :: "double \<Rightarrow> double \<Rightarrow> bool" where
  "double_gt (Finite a) (Finite b) = (a > b)"
| "double_gt PlusInfinity (Finite b) = True"
| "double_gt PlusInfinity MinusInfinity = True"
| "double_gt (Finite a) MinusInfinity = True"
| "double_gt x y = False"



fun in_unit_interval :: "double \<Rightarrow> bool" where
  "in_unit_interval (Finite r) = (0 \<le> r \<and> r \<le> 1)"
| "in_unit_interval x = False"

section \<open>ResourceReservationTaskDescriptor\<close>

text \<open>
  The budget and the server period are \<open>int\<close>, which has 32 bits; \<open>is_int32\<close> is the range
  of the type. The three checks convert the two values to \<open>double\<close>, divide and compare
  with \<open>1.0\<close>.
\<close>

definition is_int32 :: "int \<Rightarrow> bool" where
  "is_int32 i = (- (2 ^ 31) \<le> i \<and> i < 2 ^ 31)"

text \<open>The test \<open>double(q) / double(ts) > 1.0\<close>, as the three checks below write it.\<close>

abbreviation ratio_above_one :: "int \<Rightarrow> int \<Rightarrow> bool" where
  "ratio_above_one q ts \<equiv> double_gt (double_div (double_of_int q) (double_of_int ts)) (Finite 1)"

record ResourceReservationTaskDescriptor = GenericTaskDescriptor +
  Q :: int
  Ts :: int

definition ResourceReservationTaskDescriptor_new ::
  "string \<Rightarrow> pmf \<Rightarrow> pmf \<Rightarrow> int \<Rightarrow> int \<Rightarrow> ResourceReservationTaskDescriptor outcome" where
  "ResourceReservationTaskDescriptor_new nm Cd Zd Qd Tsd =
     (if double_gt (double_div (double_of_int Qd) (double_of_int Tsd)) (Finite 1)
      then Throw (Exc ''Server period period too small for task'' nm)
      else Return (GenericTaskDescriptor.extend (GenericTaskDescriptor_aperiodic nm Cd Zd)
                     (ResourceReservationTaskDescriptor.fields Qd Tsd)))"

definition get_budget ::
  "ResourceReservationTaskDescriptor \<Rightarrow> int outcome \<times> ResourceReservationTaskDescriptor" where
  "get_budget t = (Return (Q t), t)"

definition get_server_period ::
  "ResourceReservationTaskDescriptor \<Rightarrow> int outcome \<times> ResourceReservationTaskDescriptor" where
  "get_server_period t = (Return (Ts t), t)"

definition set_budget ::
  "ResourceReservationTaskDescriptor \<Rightarrow> int \<Rightarrow> unit outcome \<times> ResourceReservationTaskDescriptor" where
  "set_budget t Qd =
     (if double_gt (double_div (double_of_int Qd) (double_of_int (Ts t))) (Finite 1)
      then (Throw (Exc ''budget too large for object'' (name t)), t)
      else (Return (), t\<lparr>Q := Qd\<rparr>))"

text \<open>
  \<open>set_server_period\<close> is declared to return \<open>int\<close> and has no \<open>return\<close> statement. When the
  test does not throw, the member is assigned and control flows off the end of the
  function, which is undefined behaviour.
\<close>

definition set_server_period ::
  "ResourceReservationTaskDescriptor \<Rightarrow> int \<Rightarrow> int outcome \<times> ResourceReservationTaskDescriptor" where
  "set_server_period t Tsd =
     (if double_gt (double_div (double_of_int (Q t)) (double_of_int Tsd)) (Finite 1)
      then (Throw (Exc ''server period too small for task '' (name t)), t)
      else (Fault, t\<lparr>Ts := Tsd\<rparr>))"

section \<open>QoS functions and their builders\<close>

text \<open>
  The two classes derived from \<open>QoSFun\<close> are the two constructors of a datatype, and the
  virtual function \<open>eval\<close> is defined by cases on it. The members are \<open>scale\<close>, \<open>pmin\<close>,
  \<open>pmax\<close> and, for the linear function, \<open>offset\<close>, in this order. The constructors of the
  classes check their arguments and may throw.
\<close>

datatype QoSFun =
    LinearQoSFun double double double double
  | QuadraticQoSFun double double double

definition LinearQoSFun_new :: "double \<Rightarrow> double \<Rightarrow> double \<Rightarrow> double \<Rightarrow> QoSFun outcome" where
  "LinearQoSFun_new scaled pmind pmaxd offsetd =
     (if double_lt pmaxd pmind \<or> double_lt scaled (Finite 0)
      then Throw (Exc ''wrong initialisation parameters'' [])
      else Return (LinearQoSFun scaled pmind pmaxd offsetd))"

definition QuadraticQoSFun_new :: "double \<Rightarrow> double \<Rightarrow> double \<Rightarrow> QoSFun outcome" where
  "QuadraticQoSFun_new scaled pmind pmaxd =
     (if double_lt pmaxd pmind \<or> double_lt scaled (Finite 0)
      then Throw (Exc ''wrong initialisation parameters'' [])
      else Return (QuadraticQoSFun scaled pmind pmaxd))"


text \<open>
  Modelled from the spec: the header declaring the parameter bundles is not among the
  sources. A bundle handed to \<open>create_instance\<close> is a \<open>QoSFunParameters\<close> object; both
  builders \<open>dynamic_cast\<close> it to \<open>LinearQoSFunParameters\<close>, whose members are the
  \<open>double\<close> values \<open>scale\<close>, \<open>pmin\<close>, \<open>pmax\<close> and \<open>offset\<close>. \<open>OtherQoSFunParameters\<close> stands
  for a bundle of any other class, for which the cast gives the null pointer.
\<close>

datatype QoSFunParameters =
    LinearQoSFunParameters double double double double
  | OtherQoSFunParameters

fun LinearQoSFunBuilder_create_instance :: "QoSFunParameters \<Rightarrow> QoSFun outcome" where
  "LinearQoSFunBuilder_create_instance OtherQoSFunParameters =
     Throw (Exc ''wrong parameter type'' [])"
| "LinearQoSFunBuilder_create_instance (LinearQoSFunParameters p_scale p_pmin p_pmax p_offset) =
     (if double_gt p_pmin p_pmax \<or> double_lt p_pmin (Finite 0) \<or> double_gt p_pmin (Finite 1)
         \<or> double_lt p_pmax (Finite 0) \<or> double_gt p_pmax (Finite 1)
      then Throw (Exc ''wrong probability limits'' [])
      else LinearQoSFun_new p_scale p_pmin p_pmax p_offset)"

fun QuadraticQoSFunBuilder_create_instance :: "QoSFunParameters \<Rightarrow> QoSFun outcome" where
  "QuadraticQoSFunBuilder_create_instance OtherQoSFunParameters =
     Throw (Exc ''wrong parameter type'' [])"
| "QuadraticQoSFunBuilder_create_instance (LinearQoSFunParameters p_scale p_pmin p_pmax p_offset) =
     (if double_gt p_pmin p_pmax \<or> double_lt p_pmin (Finite 0) \<or> double_gt p_pmin (Finite 1)
         \<or> double_lt p_pmax (Finite 0) \<or> double_gt p_pmax (Finite 1)
      then Throw (Exc ''wrong probability limits'' [])
      else QuadraticQoSFun_new p_scale p_pmin p_pmax)"



section \<open>Example objects\<close>

text \<open>
  A solver whose \<open>solve\<close> sets every probability to one and returns, and a solver whose
  \<open>solve\<close> throws and leaves the map alone.
\<close>

definition cached_solver :: Solver where
  "cached_solver = \<lparr>solve = (\<lambda>m step. (Return (), map (\<lambda>e. (fst e, 1)) m)),
                     solve_calls = [], registered_tasks = []\<rparr>"

definition failing_solver :: Solver where
  "failing_solver = \<lparr>solve = (\<lambda>m step. (Throw (Exc ''solver failed'' []), m)),
                      solve_calls = [], registered_tasks = []\<rparr>"

text \<open>
  A periodic task with deadline step 10 and the deadlines 10 and 20, both unsolved. The
  member \<open>deadline_step\<close> is protected, so a class derived from \<open>GenericTaskDescriptor\<close>
  can give it this value. The solver is attached with \<open>set_solver\<close>.
\<close>

definition two_deadlines :: GenericTaskDescriptor where
  "two_deadlines =
     (GenericTaskDescriptor_periodic ''tau'' [] 100)
       \<lparr>deadline_step := 10, probabilistic_deadlines := [(10, 0), (20, 0)]\<rparr>"

definition cached_task :: GenericTaskDescriptor where
  "cached_task = snd (set_solver two_deadlines (Some cached_solver))"

definition failing_task :: GenericTaskDescriptor where
  "failing_task = snd (set_solver two_deadlines (Some failing_solver))"


definition registered_task :: GenericTaskDescriptor where
  "registered_task = snd (set_solver (GenericTaskDescriptor_periodic ''tau'' [] 100) (Some cached_solver))"

definition priority_five :: FixedPriorityTaskDescriptor where
  "priority_five =
     GenericTaskDescriptor.extend (GenericTaskDescriptor_periodic ''tau'' [] 100)
       (FixedPriorityTaskDescriptor.fields 5)"

definition half_reserved :: ResourceReservationTaskDescriptor where
  "half_reserved =
     GenericTaskDescriptor.extend (GenericTaskDescriptor_aperiodic ''tau'' [] [])
       (ResourceReservationTaskDescriptor.fields 5 10)"

section \<open>Auxiliary facts\<close>




text \<open>No path through \<open>compute_probability\<close> assigns the flag \<open>solved\<close>.\<close>

lemma compute_probability_solved:
  "solved (snd (compute_probability t)) = solved t"
  by (simp add: compute_probability_def Solver_solve_def split: option.splits prod.splits)

text \<open>No public member function assigns \<open>deadline_step\<close>.\<close>

lemma compute_probability_deadline_step:
  "deadline_step (snd (compute_probability t)) = deadline_step t"
  by (simp add: compute_probability_def Solver_solve_def split: option.splits prod.splits)

lemma get_probability_deadline_step:
  "deadline_step (snd (get_probability t d)) = deadline_step t"
  using compute_probability_deadline_step [of t]
  by (auto simp: get_probability_def Let_def split: option.splits prod.splits outcome.splits)

lemma insert_deadline_deadline_step:
  "deadline_step (snd (insert_deadline t d)) = deadline_step t"
  by (simp add: insert_deadline_def split: prod.splits)

lemma set_solver_deadline_step:
  "deadline_step (snd (set_solver t psd)) = deadline_step t"
  by (simp add: set_solver_def split: option.splits)

lemma invoke_deadline_step:
  "deadline_step (snd (invoke m t)) = deadline_step t"
  by (cases m)
     (simp_all add: set_verbose_def is_periodic_def get_period_def get_computation_time_def
        get_interarrival_time_def insert_deadline_deadline_step compute_probability_deadline_step
        get_probability_deadline_step set_solver_deadline_step)

lemma reachable_deadline_step: "reachable t \<Longrightarrow> deadline_step t = 0"
proof (induction rule: reachable.induct)
  case (aperiodic t nm Cd Zd)
  then have "deadline_step (GenericTaskDescriptor.truncate t) = 0"
    by (simp add: GenericTaskDescriptor_aperiodic_def)
  then show ?case by (simp add: GenericTaskDescriptor.truncate_def)
next
  case (periodic t nm Cd Pd)
  then have "deadline_step (GenericTaskDescriptor.truncate t) = 0"
    by (simp add: GenericTaskDescriptor_periodic_def)
  then show ?case by (simp add: GenericTaskDescriptor.truncate_def)
next
  case (call t m t')
  from call.hyps(2) have "t' = snd (invoke m t)" by simp
  with call.IH show ?case by (simp add: invoke_deadline_step)
next
  case (derived t x)
  then show ?case by simp
qed

text \<open>
  The objects the constructors of the derived classes return are reachable, and the
  setters of the derived classes keep a task reachable.
\<close>

lemma reachable_registered: "reachable registered_task"
proof -
  have "reachable (GenericTaskDescriptor_periodic ''tau'' [] 100)"
    by (rule reachable.periodic [where nm = "''tau''" and Cd = "[]" and Pd = 100])
       (simp add: GenericTaskDescriptor.truncate_def GenericTaskDescriptor_periodic_def)
  moreover have "invoke (SetSolver (Some cached_solver)) (GenericTaskDescriptor_periodic ''tau'' [] 100)
      = (False, registered_task)"
    by (simp add: registered_task_def set_solver_def)
  ultimately show ?thesis by (rule reachable.call)
qed

lemma FixedPriority_reachable:
  "FixedPriorityTaskDescriptor_aperiodic nm Cd Zd pr = Return t \<Longrightarrow> reachable t"
  "FixedPriorityTaskDescriptor_periodic nm Cd Pd pr = Return t \<Longrightarrow> reachable t"
proof -
  assume "FixedPriorityTaskDescriptor_aperiodic nm Cd Zd pr = Return t"
  then have "GenericTaskDescriptor.truncate t = GenericTaskDescriptor_aperiodic nm Cd Zd"
    by (auto simp: FixedPriorityTaskDescriptor_aperiodic_def GenericTaskDescriptor.truncate_def
          GenericTaskDescriptor.extend_def GenericTaskDescriptor_aperiodic_def split: if_splits)
  then show "reachable t" by (rule reachable.aperiodic)
next
  assume "FixedPriorityTaskDescriptor_periodic nm Cd Pd pr = Return t"
  then have "GenericTaskDescriptor.truncate t = GenericTaskDescriptor_periodic nm Cd Pd"
    by (auto simp: FixedPriorityTaskDescriptor_periodic_def GenericTaskDescriptor.truncate_def
          GenericTaskDescriptor.extend_def GenericTaskDescriptor_periodic_def split: if_splits)
  then show "reachable t" by (rule reachable.periodic)
qed

lemma ResourceReservation_reachable:
  assumes "ResourceReservationTaskDescriptor_new nm Cd Zd Qd Tsd = Return t"
  shows "reachable t"
proof -
  from assms have "GenericTaskDescriptor.truncate t = GenericTaskDescriptor_aperiodic nm Cd Zd"
    by (auto simp: ResourceReservationTaskDescriptor_new_def GenericTaskDescriptor.truncate_def
          GenericTaskDescriptor.extend_def GenericTaskDescriptor_aperiodic_def split: if_splits)
  then show ?thesis by (rule reachable.aperiodic)
qed

lemma set_priority_reachable: "reachable t \<Longrightarrow> reachable (snd (set_priority t p))"
proof -
  assume r: "reachable t"
  have "t\<lparr>priority := p\<rparr> = t\<lparr>GenericTaskDescriptor.more := FixedPriorityTaskDescriptor.fields p\<rparr>"
    by (cases t) (simp add: FixedPriorityTaskDescriptor.fields_def FixedPriorityTaskDescriptor.defs)
  with reachable.derived [OF r, of "FixedPriorityTaskDescriptor.fields p"]
  show ?thesis by (simp add: set_priority_def)
qed

lemma set_budget_reachable: "reachable t \<Longrightarrow> reachable (snd (set_budget t q))"
proof -
  assume r: "reachable t"
  have "t\<lparr>Q := q\<rparr> = t\<lparr>GenericTaskDescriptor.more := ResourceReservationTaskDescriptor.fields q (Ts t)\<rparr>"
    by (cases t) (simp add: ResourceReservationTaskDescriptor.defs)
  with reachable.derived [OF r, of "ResourceReservationTaskDescriptor.fields q (Ts t)"] r
  show ?thesis by (simp add: set_budget_def)
qed

text \<open>Both constructors of \<open>FixedPriorityTaskDescriptor\<close> check the range of the priority.\<close>

lemma FixedPriorityTaskDescriptor_range:
  "99 < pr \<Longrightarrow>
     FixedPriorityTaskDescriptor_aperiodic nm Cd Zd pr = Throw (Exc ''Priority out of range for task '' nm)
     \<and> FixedPriorityTaskDescriptor_periodic nm Cd Pd pr = Throw (Exc ''Priority out of range for task '' nm)"
  "FixedPriorityTaskDescriptor_aperiodic nm Cd Zd pr = Return t \<Longrightarrow> priority t = pr \<and> pr \<le> 99"
  "FixedPriorityTaskDescriptor_periodic nm Cd Pd pr = Return t \<Longrightarrow> priority t = pr \<and> pr \<le> 99"
  by (auto simp: FixedPriorityTaskDescriptor_aperiodic_def FixedPriorityTaskDescriptor_periodic_def
        GenericTaskDescriptor.extend_def FixedPriorityTaskDescriptor.fields_def
        GenericTaskDescriptor_aperiodic_def GenericTaskDescriptor_periodic_def split: if_splits)

subsection \<open>Rounding to binary64\<close>

lemma bit_length_pos: "0 < n \<Longrightarrow> 0 < bit_length n"
  by (subst bit_length.simps) simp

lemma bit_length_lower: "0 < n \<Longrightarrow> 2 ^ (bit_length n - 1) \<le> n"
proof (induction n rule: bit_length.induct)
  case (1 n)
  show ?case
  proof (cases "n div 2 = 0")
    case True
    with "1.prems" have "n = 1" by (simp add: div_eq_0_iff)
    then show ?thesis by (simp add: bit_length.simps)
  next
    case False
    then have h: "0 < n div 2" by simp
    with "1.IH" "1.prems" have ih: "2 ^ (bit_length (n div 2) - 1) \<le> n div 2" by simp
    from bit_length_pos [OF h] obtain k where k: "bit_length (n div 2) = Suc k"
      by (cases "bit_length (n div 2)") auto
    have "bit_length n = Suc (Suc k)"
      using "1.prems" k by (subst bit_length.simps) simp
    moreover from ih k have "2 * 2 ^ k \<le> 2 * (n div 2)" by simp
    moreover have "2 * (n div 2) \<le> n" by simp
    ultimately show ?thesis by simp
  qed
qed

lemma bit_length_bound: "n < 2 ^ m \<Longrightarrow> bit_length n \<le> m"
proof (cases "n = 0")
  case True
  then show ?thesis by (simp add: bit_length.simps)
next
  case False
  assume "n < 2 ^ m"
  with bit_length_lower [of n] False have "(2::nat) ^ (bit_length n - 1) < 2 ^ m"
    by (meson le_less_trans neq0_conv)
  then have "bit_length n - 1 < m" by (simp only: power_strict_increasing_iff rel_simps)
  then show ?thesis by simp
qed

lemma round_half_even_le: "q \<le> of_int N \<Longrightarrow> round_half_even q \<le> N"
proof -
  assume le: "q \<le> of_int N"
  show ?thesis
  proof (cases "q = of_int \<lfloor>q\<rfloor>")
    case True
    then have "round_half_even q = \<lfloor>q\<rfloor>" by (simp add: round_half_even_def Let_def)
    with le show ?thesis by (simp add: floor_le_iff)
  next
    case False
    with le have "q < of_int N" by (metis of_int_floor_cancel order_le_imp_less_or_eq floor_of_int)
    then have "\<lfloor>q\<rfloor> < N" by (simp add: floor_less_iff)
    moreover have "round_half_even q \<le> \<lfloor>q\<rfloor> + 1"
      by (simp add: round_half_even_def Let_def)
    ultimately show ?thesis by linarith
  qed
qed

lemma round_half_even_ge: "of_int N \<le> q \<Longrightarrow> N \<le> round_half_even q"
proof -
  assume "of_int N \<le> q"
  then have "N \<le> \<lfloor>q\<rfloor>" by (simp add: le_floor_iff)
  moreover have "\<lfloor>q\<rfloor> \<le> round_half_even q"
    by (simp add: round_half_even_def Let_def)
  ultimately show ?thesis by linarith
qed

lemma round_half_even_of_int: "round_half_even (of_int n) = n"
  by (simp add: round_half_even_def)

lemma exponent_ge_one:
  assumes "1 \<le> x"
  shows "0 \<le> exponent x" and "2 ^ nat (exponent x) \<le> x"
    and "exponent x = int (bit_length (nat \<lfloor>x\<rfloor>)) - 1"
proof -
  let ?n = "nat \<lfloor>x\<rfloor>"
  from assms have fl: "1 \<le> \<lfloor>x\<rfloor>" by (simp add: le_floor_iff)
  then have n: "0 < ?n" by simp
  show e: "exponent x = int (bit_length ?n) - 1" using assms by (simp add: exponent_def)
  from bit_length_pos [OF n] show "0 \<le> exponent x" unfolding e by simp
  from bit_length_pos [OF n] have "nat (exponent x) = bit_length ?n - 1" unfolding e by simp
  with bit_length_lower [OF n] have "2 ^ nat (exponent x) \<le> ?n" by simp
  then have "(2::real) ^ nat (exponent x) \<le> real ?n"
    by (metis of_nat_le_iff of_nat_numeral of_nat_power)
  also from fl have "real ?n = of_int \<lfloor>x\<rfloor>" by simp
  also have "\<dots> \<le> x" by simp
  finally show "2 ^ nat (exponent x) \<le> x" .
qed

lemma exponent_le_one: "x \<le> 1 \<Longrightarrow> exponent x \<le> 0"
  by (cases "x = 1") (simp_all add: exponent_def bit_length.simps)

text \<open>Rounding does not carry a number that is at most one above one.\<close>

lemma binary64_le_one:
  assumes "x \<le> 1"
  shows "\<not> double_gt (binary64 x) (Finite 1)"
proof (cases "x = 0")
  case True
  then show ?thesis by (simp add: binary64_def)
next
  case nz: False
  define e where "e = max (exponent \<bar>x\<bar>) (- 1022)"
  define n where "n = round_half_even (scale2 x (52 - e))"
  define y where "y = scale2 (of_int n) (e - 52)"
  have b: "binary64 x = (if 2 ^ 1024 \<le> \<bar>y\<bar> then (if 0 < x then PlusInfinity else MinusInfinity)
              else Finite y)"
    using nz by (simp add: binary64_def Let_def e_def n_def y_def)
  show ?thesis
  proof (cases "0 < x")
    case False
    with nz have neg: "x < 0" by simp
    then have "scale2 x (52 - e) \<le> of_int 0"
      by (simp add: scale2_def mult_le_0_iff divide_le_0_iff)
    then have "n \<le> 0" unfolding n_def by (rule round_half_even_le)
    then have "y \<le> 0" by (simp add: y_def scale2_def mult_le_0_iff divide_le_0_iff)
    with neg show ?thesis by (simp add: b)
  next
    case pos: True
    with assms have "exponent \<bar>x\<bar> \<le> 0" by (simp add: exponent_le_one)
    then have e0: "e \<le> 0" by (simp add: e_def)
    define k where "k = nat (52 - e)"
    from e0 have s1: "scale2 x (52 - e) = x * 2 ^ k" by (simp add: scale2_def k_def)
    from e0 have s2: "y = of_int n / 2 ^ k"
      by (simp add: y_def scale2_def k_def)
    have "x * 2 ^ k \<le> of_int (2 ^ k)" using assms by simp
    then have "n \<le> 2 ^ k" unfolding n_def s1 by (rule round_half_even_le)
    then have "real_of_int n \<le> 2 ^ k"
      by (metis of_int_le_iff of_int_numeral of_int_power)
    then have y1: "y \<le> 1" by (simp add: s2 divide_le_eq_1)
    have "of_int 0 \<le> x * 2 ^ k" using pos by simp
    then have "0 \<le> n" unfolding n_def s1 by (rule round_half_even_ge)
    then have y0: "0 \<le> y" by (simp add: s2)
    have "(1::real) < 2 ^ 1024" by (rule one_less_power) simp_all
    with y0 y1 have "\<bar>y\<bar> < 2 ^ 1024" by simp
    with y1 show ?thesis by (simp add: b)
  qed
qed

text \<open>Rounding leaves a number above one that exceeds one by the spacing at one.\<close>

lemma binary64_gt_one:
  assumes "1 + 1 / 2 ^ 52 \<le> x"
  shows "double_gt (binary64 x) (Finite 1)"
proof -
  have "(0::real) \<le> 1 / 2 ^ 52" by simp
  with assms have x1: "1 \<le> x" by linarith
  then have nz: "x \<noteq> 0" and ax: "\<bar>x\<bar> = x" by simp_all
  define e where "e = exponent x"
  from exponent_ge_one [OF x1] have e0: "0 \<le> e" and lo: "2 ^ nat e \<le> x"
    by (simp_all add: e_def)
  define n where "n = round_half_even (scale2 x (52 - e))"
  define y where "y = scale2 (of_int n) (e - 52)"
  have b: "binary64 x = (if 2 ^ 1024 \<le> \<bar>y\<bar> then PlusInfinity else Finite y)"
    using nz x1 e0 by (simp add: binary64_def Let_def e_def n_def y_def ax max_def)
  have "1 < y"
  proof (cases "e \<le> 52")
    case small: True
    define k where "k = nat (52 - e)"
    from small have s1: "scale2 x (52 - e) = x * 2 ^ k" by (simp add: scale2_def k_def)
    have s2: "y = of_int n / 2 ^ k"
    proof (cases "e = 52")
      case True
      then show ?thesis by (simp add: y_def scale2_def k_def)
    next
      case False
      with small have "e - 52 < 0" and "nat (- (e - 52)) = k" by (simp_all add: k_def)
      then show ?thesis by (simp add: y_def scale2_def)
    qed
    have q: "of_int (2 ^ k + 1) \<le> x * 2 ^ k"
    proof (cases "e = 0")
      case True
      then have "k = 52" by (simp add: k_def)
      moreover from assms have "(1 + 1 / 2 ^ 52) * 2 ^ 52 \<le> x * 2 ^ 52" by simp
      ultimately show ?thesis by simp
    next
      case False
      with e0 have "1 \<le> nat e" by simp
      then have "(2::real) ^ 1 \<le> 2 ^ nat e" by (rule power_increasing) simp
      with lo have "2 \<le> x" by simp
      then have "2 * 2 ^ k \<le> x * (2::real) ^ k" by simp
      moreover have "(1::real) \<le> 2 ^ k" by simp
      ultimately have "2 ^ k + 1 \<le> x * (2::real) ^ k" by linarith
      then show ?thesis by simp
    qed
    then have "2 ^ k + 1 \<le> n" unfolding n_def s1 by (rule round_half_even_ge)
    then have "2 ^ k < n" by simp
    then have "(2::real) ^ k < of_int n" by simp
    then show ?thesis by (simp add: s2 less_divide_eq_1_pos)
  next
    case False
    then have big: "52 < e" by simp
    define j where "j = nat (e - 52)"
    from big have ne: "nat e = j + 52" by (simp add: j_def)
    from big have s1: "scale2 x (52 - e) = x / 2 ^ j" by (simp add: scale2_def j_def)
    from big have s2: "y = of_int n * 2 ^ j" by (simp add: y_def scale2_def j_def)
    from lo have "2 ^ j * 2 ^ 52 \<le> x" by (simp add: ne power_add)
    then have "of_int (2 ^ 52) \<le> x / 2 ^ j" by (simp add: le_divide_eq mult.commute)
    then have "2 ^ 52 \<le> n" unfolding n_def s1 by (rule round_half_even_ge)
    then have "real_of_int (2 ^ 52) \<le> of_int n" by (simp only: of_int_le_iff)
    then have "(2::real) \<le> of_int n" by simp
    moreover have "(1::real) \<le> 2 ^ j" by simp
    ultimately have "2 * 1 \<le> real_of_int n * 2 ^ j" by (intro mult_mono) simp_all
    then show ?thesis by (simp add: s2)
  qed
  then show ?thesis by (simp add: b)
qed

text \<open>The conversion of an integer of at most 53 bits is exact.\<close>

lemma binary64_of_int:
  assumes "\<bar>i\<bar> < 2 ^ 53"
  shows "binary64 (of_int i) = Finite (of_int i)"
proof (cases "i = 0")
  case True
  then show ?thesis by (simp add: binary64_def)
next
  case nz: False
  define x :: real where "x = of_int i"
  have ax: "\<bar>x\<bar> = of_int \<bar>i\<bar>" by (simp add: x_def)
  from nz have x1: "1 \<le> \<bar>x\<bar>" unfolding ax by (simp add: int_one_le_iff_zero_less)
  define e where "e = exponent \<bar>x\<bar>"
  from exponent_ge_one [OF x1] have e0: "0 \<le> e"
    and ee: "e = int (bit_length (nat \<lfloor>\<bar>x\<bar>\<rfloor>)) - 1"
    by (simp_all add: e_def)
  have "nat \<lfloor>\<bar>x\<bar>\<rfloor> = nat \<bar>i\<bar>" by (simp only: ax floor_of_int)
  moreover from assms have "nat \<bar>i\<bar> < 2 ^ 53" by (simp add: nat_less_iff)
  ultimately have "bit_length (nat \<lfloor>\<bar>x\<bar>\<rfloor>) \<le> 53" by (simp add: bit_length_bound)
  with ee have e52: "e \<le> 52" by simp
  define k where "k = nat (52 - e)"
  define n where "n = round_half_even (scale2 x (52 - e))"
  define y where "y = scale2 (of_int n) (e - 52)"
  from nz have xnz: "x \<noteq> 0" by (simp add: x_def)
  have b: "binary64 x = (if 2 ^ 1024 \<le> \<bar>y\<bar> then (if 0 < x then PlusInfinity else MinusInfinity)
              else Finite y)"
    using xnz e0 by (simp add: binary64_def Let_def e_def [symmetric] n_def y_def max_def)
  from e52 have s1: "scale2 x (52 - e) = of_int (i * 2 ^ k)" by (simp add: scale2_def k_def x_def)
  have n: "n = i * 2 ^ k"
    unfolding n_def s1 by (rule round_half_even_of_int)
  have y: "y = x"
  proof (cases "e = 52")
    case True
    then show ?thesis by (simp add: y_def n scale2_def k_def x_def)
  next
    case False
    with e52 have "e - 52 < 0" and "nat (- (e - 52)) = k" by (simp_all add: k_def)
    then show ?thesis by (simp add: y_def n scale2_def x_def)
  qed
  from assms have "\<bar>x\<bar> < 2 ^ 53" unfolding ax
    by (metis of_int_less_iff of_int_numeral of_int_power)
  also have "(2::real) ^ 53 \<le> 2 ^ 1024" by (rule power_increasing) simp_all
  finally have "\<not> 2 ^ 1024 \<le> \<bar>y\<bar>" unfolding y by simp
  with b y show ?thesis by (simp add: x_def)
qed

lemma double_of_int32: "is_int32 i \<Longrightarrow> double_of_int i = Finite (of_int i)"
proof -
  assume "is_int32 i"
  then have "\<bar>i\<bar> \<le> 2 ^ 31" by (simp add: is_int32_def abs_le_iff)
  also have "(2::int) ^ 31 < 2 ^ 53" by simp
  finally show ?thesis by (simp add: double_of_int_def binary64_of_int)
qed

text \<open>The ratio test of the reservation task in terms of the two integers.\<close>

lemma ratio_test:
  assumes "is_int32 q" and "is_int32 ts"
  shows "ratio_above_one q ts \<longleftrightarrow> (0 < ts \<and> ts < q) \<or> (ts < 0 \<and> q < ts) \<or> (ts = 0 \<and> 0 < q)"
proof (cases "ts = 0")
  case True
  then have "double_of_int ts = Finite 0" by (simp add: double_of_int_def binary64_def)
  with True show ?thesis by (simp add: double_of_int32 [OF assms(1)])
next
  case nz: False
  let ?x = "real_of_int q / real_of_int ts"
  from nz have d: "double_div (double_of_int q) (double_of_int ts) = binary64 ?x"
    by (simp add: double_of_int32 [OF assms(1)] double_of_int32 [OF assms(2)])
  from assms(2) have r: "- (2 ^ 31) \<le> ts" "ts < 2 ^ 31" by (simp_all add: is_int32_def)
  show ?thesis
  proof (cases "0 < ts")
    case pos: True
    show ?thesis
    proof (cases "ts < q")
      case True
      then have "real_of_int ts + 1 \<le> real_of_int q" by linarith
      moreover from r have "real_of_int ts / 2 ^ 52 \<le> 1" by simp
      ultimately have "(1 + 1 / 2 ^ 52) * real_of_int ts \<le> real_of_int q"
        by (simp add: algebra_simps)
      with pos have "1 + 1 / 2 ^ 52 \<le> ?x" by (simp add: pos_le_divide_eq)
      then have "double_gt (binary64 ?x) (Finite 1)" by (rule binary64_gt_one)
      with pos True show ?thesis by (simp add: d)
    next
      case False
      with pos have "?x \<le> 1" by (simp add: pos_divide_le_eq)
      then have "\<not> double_gt (binary64 ?x) (Finite 1)" by (rule binary64_le_one)
      with pos False show ?thesis by (simp add: d)
    qed
  next
    case False
    with nz have neg: "ts < 0" by simp
    show ?thesis
    proof (cases "q < ts")
      case True
      then have "real_of_int q \<le> real_of_int ts - 1" by linarith
      moreover from r have "- 1 \<le> real_of_int ts / 2 ^ 52" by simp
      ultimately have "real_of_int q \<le> (1 + 1 / 2 ^ 52) * real_of_int ts"
        by (simp add: algebra_simps)
      with neg have "1 + 1 / 2 ^ 52 \<le> ?x" by (simp add: neg_le_divide_eq)
      then have "double_gt (binary64 ?x) (Finite 1)" by (rule binary64_gt_one)
      with neg True show ?thesis by (simp add: d)
    next
      case False
      with neg have "?x \<le> 1" by (simp add: neg_divide_le_eq)
      then have "\<not> double_gt (binary64 ?x) (Finite 1)" by (rule binary64_le_one)
      with neg False show ?thesis by (simp add: d)
    qed
  qed
qed

subsection \<open>Decimal literals and the QoS functions\<close>

lemmas binary64_eval =
  binary64_def exponent_def round_half_even_def bit_length.simps Let_def scale2_def

text \<open>The doubles that the decimal literals of the spec's examples denote.\<close>

lemma literals:
  "binary64 1 = Finite 1"
  "binary64 2 = Finite 2"
  "binary64 3 = Finite 3"
  "binary64 0.1 = Finite (3602879701896397 / 36028797018963968)"
  "binary64 0.2 = Finite (3602879701896397 / 18014398509481984)"
  "binary64 0.3 = Finite (5404319552844595 / 18014398509481984)"
  "binary64 0.4 = Finite (3602879701896397 / 9007199254740992)"
  "binary64 0.5 = Finite (1 / 2)"
  "binary64 0.6 = Finite (5404319552844595 / 9007199254740992)"
  "binary64 0.7 = Finite (3152519739159347 / 4503599627370496)"
  "binary64 0.8 = Finite (3602879701896397 / 4503599627370496)"
  "binary64 0.9 = Finite (8106479329266893 / 9007199254740992)"
  "binary64 0.95 = Finite (4278419646001971 / 4503599627370496)"
  "binary64 0.12 = Finite (4323455642275676 / 36028797018963968)"
  "binary64 0.48 = Finite (8646911284551352 / 18014398509481984)"
  "binary64 1.4 = Finite (3152519739159347 / 2251799813685248)"
  "binary64 1.8 = Finite (8106479329266893 / 4503599627370496)"
  "binary64 (- 0.1) = Finite (- (3602879701896397 / 36028797018963968))"
  "binary64 (- 1) = Finite (- 1)"
  by (simp_all add: binary64_eval)





subsection \<open>The reservation task\<close>

lemma half_reserved_members:
  "Q half_reserved = 5" "Ts half_reserved = 10" "name half_reserved = ''tau''"
  by (simp_all add: half_reserved_def GenericTaskDescriptor.extend_def
        ResourceReservationTaskDescriptor.fields_def GenericTaskDescriptor_aperiodic_def)

lemma is_int32_small: "is_int32 0" "is_int32 4" "is_int32 5" "is_int32 10" "is_int32 11"
  "is_int32 20" "is_int32 (- 3)" "is_int32 (- 5)"
  by (simp_all add: is_int32_def)

text \<open>
  The constructor and the two setters throw when the ratio test fires, and a setter that
  throws leaves the task as it was.
\<close>

lemma reservation_rejects:
  assumes "is_int32 Qd" and "is_int32 Tsd" and "is_int32 (Q t)" and "is_int32 (Ts t)"
  shows "(0 < Tsd \<and> Tsd < Qd) \<or> (Tsd < 0 \<and> Qd < Tsd) \<or> (Tsd = 0 \<and> 0 < Qd) \<Longrightarrow>
           ResourceReservationTaskDescriptor_new nm Cd Zd Qd Tsd
             = Throw (Exc ''Server period period too small for task'' nm)"
    and "(0 < Ts t \<and> Ts t < Qd) \<or> (Ts t < 0 \<and> Qd < Ts t) \<or> (Ts t = 0 \<and> 0 < Qd) \<Longrightarrow>
           set_budget t Qd = (Throw (Exc ''budget too large for object'' (name t)), t)"
    and "(0 < Tsd \<and> Tsd < Q t) \<or> (Tsd < 0 \<and> Q t < Tsd) \<or> (Tsd = 0 \<and> 0 < Q t) \<Longrightarrow>
           set_server_period t Tsd
             = (Throw (Exc ''server period too small for task '' (name t)), t)"
  using ratio_test [OF assms(1) assms(2)] ratio_test [OF assms(1) assms(4)]
    ratio_test [OF assms(3) assms(2)]
  by (simp_all add: ResourceReservationTaskDescriptor_new_def set_budget_def
        set_server_period_def)

section \<open>The probability cache\<close>

text \<open>
  Claim C1 says that a successful \<open>compute_probability\<close> marks the task solved, so that a
  second call does nothing and two calls of \<open>get_probability\<close> run the solver at most
  once. The code tests the flag \<open>solved\<close> in both functions and no statement sets it to
  true. On the task
  \<open>cached_task\<close> (solver attached, deadlines 10 and 20, step 10, unsolved) the call of
  \<open>compute_probability\<close> returns and the flag is still false; a second call runs the
  solver a second time; \<open>get_probability 10\<close> followed by \<open>get_probability 20\<close> both
  return the solved probability and the solver has then been run twice.
\<close>

theorem compute_probability_never_marks_solved:
  "fst (compute_probability cached_task) = Return ()
   \<and> solved (snd (compute_probability cached_task)) = False
   \<and> solver_runs cached_task = 0
   \<and> solver_runs (snd (compute_probability (snd (compute_probability cached_task)))) = 2
   \<and> fst (get_probability cached_task 10) = Return 1
   \<and> fst (get_probability (snd (get_probability cached_task 10)) 20) = Return 1
   \<and> solver_runs (snd (get_probability (snd (get_probability cached_task 10)) 20)) = 2"
  by (simp add: cached_task_def two_deadlines_def cached_solver_def set_solver_def
       GenericTaskDescriptor_periodic_def compute_probability_def get_probability_def
       Solver_solve_def Solver_register_task_def solver_runs_def dpm_empty_def dpm_find_def)

text \<open>
  Claim C2: when the solver is run and its \<open>solve\<close> fails, \<open>compute_probability\<close> fails
  with the solver's exception, and so does \<open>get_probability\<close> for every deadline. The
  solver is run when it is attached, the map is not empty and the task is not solved.
\<close>

theorem solver_failure_surfaces:
  assumes "probability_solver t = Some s"
    and "\<not> dpm_empty (probabilistic_deadlines t)"
    and "\<not> solved t"
    and "fst (solve s (probabilistic_deadlines t) (deadline_step t)) = Throw e"
  shows "fst (compute_probability t) = Throw e \<and> fst (get_probability t d) = Throw e"
proof -
  from assms have c: "fst (compute_probability t) = Throw e"
    by (auto simp: compute_probability_def Solver_solve_def split: prod.splits)
  with assms(3) have "fst (get_probability t d) = Throw e"
    by (auto simp: get_probability_def Let_def split: prod.splits)
  with c show ?thesis by simp
qed

theorem solver_failure_surfaces_witness:
  "fst (compute_probability failing_task) = Throw (Exc ''solver failed'' [])
   \<and> fst (get_probability failing_task 10) = Throw (Exc ''solver failed'' [])"
proof -
  have 1: "probability_solver failing_task = Some (Solver_register_task failing_solver ''tau'')"
    by (simp add: failing_task_def set_solver_def two_deadlines_def
          GenericTaskDescriptor_periodic_def)
  have 2: "\<not> dpm_empty (probabilistic_deadlines failing_task)"
    by (simp add: failing_task_def set_solver_def two_deadlines_def dpm_empty_def)
  have 3: "\<not> solved failing_task"
    by (simp add: failing_task_def set_solver_def)
  have 4: "fst (solve (Solver_register_task failing_solver ''tau'')
             (probabilistic_deadlines failing_task) (deadline_step failing_task))
           = Throw (Exc ''solver failed'' [])"
    by (simp add: Solver_register_task_def failing_solver_def)
  show ?thesis using solver_failure_surfaces [OF 1 2 3 4, of 10] by simp
qed

text \<open>
  Claim C10: \<open>get_probability\<close> looks the deadline up first, runs \<open>compute_probability\<close>
  next and tests the result of the lookup last. For an unsolved task with a solver and a
  non-empty map, a query for a deadline that is not registered hands the whole map and
  the step to \<open>solve\<close>: the task is left with the map as \<open>solve\<close> returned it and the solver
  has this one call more in its record. When \<open>solve\<close> returns, the call ends with the
  exception for a missing deadline; when \<open>solve\<close> fails, with the failure of \<open>solve\<close>.
\<close>

theorem get_probability_unregistered:
  assumes "\<not> solved t"
    and "probability_solver t = Some s"
    and "\<not> dpm_empty (probabilistic_deadlines t)"
    and "dpm_find (probabilistic_deadlines t) d = None"
  shows "snd (get_probability t d)
           = t\<lparr>probabilistic_deadlines :=
                  snd (solve s (probabilistic_deadlines t) (deadline_step t)),
                probability_solver :=
                  Some (s\<lparr>solve_calls :=
                            solve_calls s @ [(probabilistic_deadlines t, deadline_step t)]\<rparr>)\<rparr>
       \<and> fst (get_probability t d)
           = (case fst (solve s (probabilistic_deadlines t) (deadline_step t)) of
                Return u \<Rightarrow> Throw (Exc ''Deadline does not exist for task '' (name t))
              | Throw e \<Rightarrow> Throw e
              | Fault \<Rightarrow> Fault)
       \<and> solver_runs (snd (get_probability t d)) = Suc (solver_runs t)"
  using assms
  by (auto simp: get_probability_def compute_probability_def Solver_solve_def solver_runs_def
        Let_def split: prod.splits outcome.splits)

theorem get_probability_unregistered_witness:
  "\<not> solved cached_task \<and> \<not> dpm_empty (probabilistic_deadlines cached_task)
   \<and> dpm_find (probabilistic_deadlines cached_task) 30 = None
   \<and> probabilistic_deadlines cached_task = [(10, 0), (20, 0)]
   \<and> probabilistic_deadlines (snd (get_probability cached_task 30)) = [(10, 1), (20, 1)]
   \<and> solver_runs cached_task = 0
   \<and> solver_runs (snd (get_probability cached_task 30)) = 1
   \<and> fst (get_probability cached_task 30)
        = Throw (Exc ''Deadline does not exist for task '' ''tau'')"
proof -
  have 1: "\<not> solved cached_task"
    by (simp add: cached_task_def set_solver_def)
  have 2: "probability_solver cached_task = Some (Solver_register_task cached_solver ''tau'')"
    by (simp add: cached_task_def set_solver_def two_deadlines_def
          GenericTaskDescriptor_periodic_def)
  have 3: "\<not> dpm_empty (probabilistic_deadlines cached_task)"
    by (simp add: cached_task_def set_solver_def two_deadlines_def dpm_empty_def)
  have 4: "dpm_find (probabilistic_deadlines cached_task) 30 = None"
    by (simp add: cached_task_def set_solver_def two_deadlines_def dpm_find_def)
  have 5: "solve (Solver_register_task cached_solver ''tau'') [(10, 0), (20, 0)] 10
           = (Return (), [(10, 1), (20, 1)])"
    by (simp add: Solver_register_task_def cached_solver_def)
  have 6: "name cached_task = ''tau''" and 7: "solver_runs cached_task = 0"
    and 8: "probabilistic_deadlines cached_task = [(10, 0), (20, 0)]"
    and 9: "deadline_step cached_task = 10"
    by (simp_all add: cached_task_def set_solver_def two_deadlines_def solver_runs_def
          GenericTaskDescriptor_periodic_def Solver_register_task_def cached_solver_def)
  from get_probability_unregistered [OF 1 2 3 4]
  have "probabilistic_deadlines (snd (get_probability cached_task 30)) = [(10, 1), (20, 1)]"
    and "fst (get_probability cached_task 30)
           = Throw (Exc ''Deadline does not exist for task '' ''tau'')"
    and "solver_runs (snd (get_probability cached_task 30)) = 1"
    by (simp_all add: 5 6 7 8 9 solver_runs_def Solver_register_task_def cached_solver_def)
  with 1 3 4 7 8 show ?thesis by simp
qed

section \<open>Registering deadlines\<close>




text \<open>
  Claim C7: both constructors set \<open>deadline_step\<close> to zero and no public call changes
  it, so it is zero in every reachable task, and there every call of \<open>insert_deadline\<close>
  takes the remainder by zero.
\<close>

theorem deadline_step_always_zero:
  "deadline_step (GenericTaskDescriptor_aperiodic nm Cd Zd) = 0
   \<and> deadline_step (GenericTaskDescriptor_periodic nm Cd Pd) = 0
   \<and> (reachable t \<longrightarrow> deadline_step t = 0 \<and> insert_deadline t d = (Fault, t))"
  by (auto simp: GenericTaskDescriptor_aperiodic_def GenericTaskDescriptor_periodic_def
        insert_deadline_def dest: reachable_deadline_step)

theorem deadline_step_always_zero_witness:
  "reachable registered_task \<and> deadline_step registered_task = 0
   \<and> insert_deadline registered_task 10 = (Fault, registered_task)"
  using deadline_step_always_zero [of "''tau''" "[]" "[]" 100 registered_task 10]
    reachable_registered
  by simp

section \<open>Scheduling parameters\<close>

text \<open>
  Claim C4 says that \<open>set_priority\<close> fails for a priority above 99 and leaves the priority
  as it was. The constructor accepts priority 5; \<open>set_priority 100\<close> on the resulting task
  returns the old priority 5 and the task then has priority 100.
\<close>

theorem set_priority_unchecked:
  "FixedPriorityTaskDescriptor_periodic ''tau'' [] 100 5 = Return priority_five
   \<and> priority priority_five = 5
   \<and> set_priority priority_five 100 = (Return 5, priority_five\<lparr>priority := 100\<rparr>)
   \<and> priority (snd (set_priority priority_five 100)) = 100"
  by (simp add: FixedPriorityTaskDescriptor_periodic_def priority_five_def set_priority_def
        GenericTaskDescriptor.extend_def FixedPriorityTaskDescriptor.fields_def
        GenericTaskDescriptor_periodic_def)

text \<open>
  Claim C5 says that a ratio of exactly one is accepted. The constructor accepts budget
  5 with server period 10, \<open>set_budget 10\<close> on that task returns with the budget set, and
  \<open>set_server_period 4\<close> throws and leaves the task as it was. But \<open>set_server_period 5\<close>,
  which makes the ratio exactly one, passes the test, assigns the period and then leaves
  a function declared \<open>int\<close> without a \<open>return\<close>: undefined behaviour. So does every other
  call that the test lets pass, such as \<open>set_server_period 20\<close>.
\<close>

theorem set_server_period_never_returns:
  "ResourceReservationTaskDescriptor_new ''tau'' [] [] 5 10 = Return half_reserved
   \<and> set_budget half_reserved 10 = (Return (), half_reserved\<lparr>Q := 10\<rparr>)
   \<and> set_budget half_reserved 11
        = (Throw (Exc ''budget too large for object'' ''tau''), half_reserved)
   \<and> set_server_period half_reserved 4
        = (Throw (Exc ''server period too small for task '' ''tau''), half_reserved)
   \<and> set_server_period half_reserved 5 = (Fault, half_reserved\<lparr>Ts := 5\<rparr>)
   \<and> set_server_period half_reserved 20 = (Fault, half_reserved\<lparr>Ts := 20\<rparr>)"
proof -
  have "\<not> ratio_above_one 5 10"
    using ratio_test [of 5 10] by (simp add: is_int32_small)
  then have new: "ResourceReservationTaskDescriptor_new ''tau'' [] [] 5 10 = Return half_reserved"
    by (simp add: ResourceReservationTaskDescriptor_new_def half_reserved_def)
  have "\<not> ratio_above_one 10 10" "ratio_above_one 11 10" "ratio_above_one 5 4"
    "\<not> ratio_above_one 5 5" "\<not> ratio_above_one 5 20"
    using ratio_test [of 10 10] ratio_test [of 11 10] ratio_test [of 5 4] ratio_test [of 5 5]
      ratio_test [of 5 20]
    by (simp_all add: is_int32_small)
  with new show ?thesis
    by (simp add: half_reserved_members set_budget_def set_server_period_def)
qed

text \<open>
  Claim C6 as the code has it: the constructor accepts a budget of zero, and a negative
  budget with a negative server period; \<open>set_budget\<close> accepts a negative budget.
\<close>

theorem reservation_accepts_nonpositive:
  "ResourceReservationTaskDescriptor_new ''tau'' [] [] 0 5
     = Return (GenericTaskDescriptor.extend (GenericTaskDescriptor_aperiodic ''tau'' [] [])
                 (ResourceReservationTaskDescriptor.fields 0 5))
   \<and> ResourceReservationTaskDescriptor_new ''tau'' [] [] (- 3) (- 5)
     = Return (GenericTaskDescriptor.extend (GenericTaskDescriptor_aperiodic ''tau'' [] [])
                 (ResourceReservationTaskDescriptor.fields (- 3) (- 5)))
   \<and> fst (set_budget half_reserved (- 3)) = Return ()
   \<and> Q (snd (set_budget half_reserved (- 3))) = - 3"
  using ratio_test [of 0 5] ratio_test [of "- 3" "- 5"] ratio_test [of "- 3" 10]
  by (simp add: is_int32_small half_reserved_members ResourceReservationTaskDescriptor_new_def
        set_budget_def)

text \<open>
  Claim C6, amended: the sign of the budget and of the server period is not checked. For
  values of the type \<open>int\<close>, the constructor and \<open>set_budget\<close> succeed exactly when the
  ratio test does not fire: the period is positive and the budget at most the period, or
  the period is negative and the budget at least the period, or the period is zero and
  the budget at most zero. \<open>set_server_period\<close> throws when the test fires and then leaves
  the task as it was.
\<close>

theorem reservation_sign_unchecked:
  assumes "is_int32 Qd" and "is_int32 Tsd" and "is_int32 (Q t)" and "is_int32 (Ts t)"
  shows "(ResourceReservationTaskDescriptor_new nm Cd Zd Qd Tsd
            = Return (GenericTaskDescriptor.extend (GenericTaskDescriptor_aperiodic nm Cd Zd)
                        (ResourceReservationTaskDescriptor.fields Qd Tsd))
            \<longleftrightarrow> (0 < Tsd \<and> Qd \<le> Tsd) \<or> (Tsd < 0 \<and> Tsd \<le> Qd) \<or> (Tsd = 0 \<and> Qd \<le> 0))
       \<and> (set_budget t Qd = (Return (), t\<lparr>Q := Qd\<rparr>)
            \<longleftrightarrow> (0 < Ts t \<and> Qd \<le> Ts t) \<or> (Ts t < 0 \<and> Ts t \<le> Qd) \<or> (Ts t = 0 \<and> Qd \<le> 0))
       \<and> ((0 < Tsd \<and> Tsd < Q t) \<or> (Tsd < 0 \<and> Q t < Tsd) \<or> (Tsd = 0 \<and> 0 < Q t) \<longrightarrow>
            set_server_period t Tsd
              = (Throw (Exc ''server period too small for task '' (name t)), t))"
proof -
  have 1: "\<not> ratio_above_one q ts
     \<longleftrightarrow> (0 < ts \<and> q \<le> ts) \<or> (ts < 0 \<and> ts \<le> q) \<or> (ts = 0 \<and> q \<le> 0)"
    if "is_int32 q" and "is_int32 ts" for q ts
    unfolding ratio_test [OF that] by auto
  show ?thesis
    unfolding 1 [OF assms(1) assms(2), symmetric] 1 [OF assms(1) assms(4), symmetric]
      ratio_test [OF assms(3) assms(2), symmetric]
    by (simp add: ResourceReservationTaskDescriptor_new_def set_budget_def set_server_period_def)
qed

theorem reservation_sign_unchecked_witness:
  "is_int32 0 \<and> is_int32 4 \<and> is_int32 (Q half_reserved) \<and> is_int32 (Ts half_reserved)
   \<and> ResourceReservationTaskDescriptor_new ''tau'' [] [] 0 4
      = Return (GenericTaskDescriptor.extend (GenericTaskDescriptor_aperiodic ''tau'' [] [])
                  (ResourceReservationTaskDescriptor.fields 0 4))
   \<and> set_budget half_reserved 0 = (Return (), half_reserved\<lparr>Q := 0\<rparr>)
   \<and> set_server_period half_reserved 4
      = (Throw (Exc ''server period too small for task '' ''tau''), half_reserved)"
proof -
  have r: "is_int32 0" "is_int32 4" "is_int32 (Q half_reserved)" "is_int32 (Ts half_reserved)"
    by (simp_all add: is_int32_def half_reserved_members)
  show ?thesis
    using reservation_sign_unchecked [OF r, of "''tau''" "[]" "[]"] r
    by (simp add: half_reserved_members)
qed

section \<open>QoS functions\<close>




text \<open>
  Claim C9 as the code has it: a bundle whose lower limit is NaN passes every comparison
  of the builder and of the constructor, and the object is built, although NaN does not
  lie in the unit interval.
\<close>

theorem create_instance_accepts_nan:
  "LinearQoSFunBuilder_create_instance
      (LinearQoSFunParameters (Finite 2) NaN (Finite (1 / 2)) (Finite 1))
     = Return (LinearQoSFun (Finite 2) NaN (Finite (1 / 2)) (Finite 1))
   \<and> QuadraticQoSFunBuilder_create_instance
      (LinearQoSFunParameters (Finite 3) (Finite (1 / 2)) NaN (Finite 0))
     = Return (QuadraticQoSFun (Finite 3) (Finite (1 / 2)) NaN)
   \<and> \<not> in_unit_interval NaN"
  by (simp add: LinearQoSFun_new_def QuadraticQoSFun_new_def)

text \<open>
  Claim C9, amended: both builders throw for a bundle that is not a
  \<open>LinearQoSFunParameters\<close>. For such a bundle whose limits are not NaN they throw when
  \<open>pmin > pmax\<close> or one of the two lies outside the unit interval; with limits in the unit
  interval and in order, and a negative scale, the constructor of the QoS function throws;
  with such limits and a scale that is not negative the object is built from the members
  of the bundle.
\<close>

theorem create_instance_checks:
  "LinearQoSFunBuilder_create_instance OtherQoSFunParameters = Throw (Exc ''wrong parameter type'' [])
   \<and> QuadraticQoSFunBuilder_create_instance OtherQoSFunParameters
        = Throw (Exc ''wrong parameter type'' [])
   \<and> (lo \<noteq> NaN \<and> hi \<noteq> NaN
        \<and> (double_gt lo hi \<or> \<not> in_unit_interval lo \<or> \<not> in_unit_interval hi) \<longrightarrow>
        LinearQoSFunBuilder_create_instance (LinearQoSFunParameters sc lo hi off)
          = Throw (Exc ''wrong probability limits'' [])
        \<and> QuadraticQoSFunBuilder_create_instance (LinearQoSFunParameters sc lo hi off)
          = Throw (Exc ''wrong probability limits'' []))
   \<and> (in_unit_interval lo \<and> in_unit_interval hi \<and> double_le lo hi
        \<and> double_lt sc (Finite 0) \<longrightarrow>
        LinearQoSFunBuilder_create_instance (LinearQoSFunParameters sc lo hi off)
          = Throw (Exc ''wrong initialisation parameters'' [])
        \<and> QuadraticQoSFunBuilder_create_instance (LinearQoSFunParameters sc lo hi off)
          = Throw (Exc ''wrong initialisation parameters'' []))
   \<and> (in_unit_interval lo \<and> in_unit_interval hi \<and> double_le lo hi
        \<and> \<not> double_lt sc (Finite 0) \<longrightarrow>
        LinearQoSFunBuilder_create_instance (LinearQoSFunParameters sc lo hi off)
          = Return (LinearQoSFun sc lo hi off)
        \<and> QuadraticQoSFunBuilder_create_instance (LinearQoSFunParameters sc lo hi off)
          = Return (QuadraticQoSFun sc lo hi))"
  by (cases lo; cases hi) (auto simp: LinearQoSFun_new_def QuadraticQoSFun_new_def)

theorem create_instance_checks_witness:
  "LinearQoSFunBuilder_create_instance
      (LinearQoSFunParameters (binary64 2) (binary64 0.6) (binary64 0.3) (binary64 1))
      = Throw (Exc ''wrong probability limits'' [])
   \<and> QuadraticQoSFunBuilder_create_instance
      (LinearQoSFunParameters (binary64 2) (binary64 (- 0.1)) (binary64 0.3) (binary64 1))
      = Throw (Exc ''wrong probability limits'' [])
   \<and> LinearQoSFunBuilder_create_instance
      (LinearQoSFunParameters (binary64 (- 1)) (binary64 0.5) (binary64 0.9) (binary64 1))
      = Throw (Exc ''wrong initialisation parameters'' [])
   \<and> QuadraticQoSFunBuilder_create_instance
      (LinearQoSFunParameters (binary64 (- 1)) (binary64 0.5) (binary64 0.9) (binary64 1))
      = Throw (Exc ''wrong initialisation parameters'' [])
   \<and> LinearQoSFunBuilder_create_instance
      (LinearQoSFunParameters (binary64 2) (binary64 0.5) (binary64 0.9) (binary64 1))
      = Return (LinearQoSFun (binary64 2) (binary64 0.5) (binary64 0.9) (binary64 1))
   \<and> QuadraticQoSFunBuilder_create_instance
      (LinearQoSFunParameters (binary64 3) (binary64 0.2) (binary64 0.6) (Finite 0))
      = Return (QuadraticQoSFun (binary64 3) (binary64 0.2) (binary64 0.6))"
proof -
  note r1 = create_instance_checks [of "binary64 0.6" "binary64 0.3" "binary64 2" "binary64 1"]
  note r2 = create_instance_checks [of "binary64 (- 0.1)" "binary64 0.3" "binary64 2" "binary64 1"]
  note r3 = create_instance_checks [of "binary64 0.5" "binary64 0.9" "binary64 (- 1)" "binary64 1"]
  note r4 = create_instance_checks [of "binary64 0.5" "binary64 0.9" "binary64 2" "binary64 1"]
  note r5 = create_instance_checks [of "binary64 0.2" "binary64 0.6" "binary64 3" "Finite 0"]
  have 1: "LinearQoSFunBuilder_create_instance
      (LinearQoSFunParameters (binary64 2) (binary64 0.6) (binary64 0.3) (binary64 1))
      = Throw (Exc ''wrong probability limits'' [])"
    using r1 unfolding literals by simp
  have 2: "QuadraticQoSFunBuilder_create_instance
      (LinearQoSFunParameters (binary64 2) (binary64 (- 0.1)) (binary64 0.3) (binary64 1))
      = Throw (Exc ''wrong probability limits'' [])"
    using r2 unfolding literals by simp
  have 3: "LinearQoSFunBuilder_create_instance
      (LinearQoSFunParameters (binary64 (- 1)) (binary64 0.5) (binary64 0.9) (binary64 1))
      = Throw (Exc ''wrong initialisation parameters'' [])"
    "QuadraticQoSFunBuilder_create_instance
      (LinearQoSFunParameters (binary64 (- 1)) (binary64 0.5) (binary64 0.9) (binary64 1))
      = Throw (Exc ''wrong initialisation parameters'' [])"
    using r3 unfolding literals by simp_all
  have 4: "LinearQoSFunBuilder_create_instance
      (LinearQoSFunParameters (binary64 2) (binary64 0.5) (binary64 0.9) (binary64 1))
      = Return (LinearQoSFun (binary64 2) (binary64 0.5) (binary64 0.9) (binary64 1))"
    using r4 unfolding literals by simp
  have 5: "QuadraticQoSFunBuilder_create_instance
      (LinearQoSFunParameters (binary64 3) (binary64 0.2) (binary64 0.6) (Finite 0))
      = Return (QuadraticQoSFun (binary64 3) (binary64 0.2) (binary64 0.6))"
    using r5 unfolding literals by simp
  from 1 2 3 4 5 show ?thesis by simp
qed

end
